theory Spec2Isabelle
  imports Main "HOL-Library.Sublist"
begin

section \<open>Python values\<close>

text \<open>
  A raised Python exception is its class name (\<open>type(e).__name__\<close>), the names of the
  classes that class derives from, up to \<open>Exception\<close>, and its text (\<open>str(e)\<close>). A
  computation that may raise returns \<open>exn + 'a\<close>, with \<open>Inl\<close> the exception.
  Exceptions that are not subclasses of \<open>Exception\<close> (KeyboardInterrupt, SystemExit)
  are outside the model.
\<close>

datatype exn = Exn (exn_type: string) (exn_bases: "string list") (exn_str: string)

text \<open>
  \<open>isinstance(e, cls)\<close>, the test of \<open>except cls\<close>: the class of the exception is
  \<open>cls\<close> or derives from it.
\<close>

definition is_instance :: "exn \<Rightarrow> string \<Rightarrow> bool" where
  "is_instance e cls = (exn_type e = cls \<or> cls \<in> set (exn_bases e))"

text \<open>The line feed of the notebook's format strings.\<close>

definition nl :: string where
  "nl = [CHR 0x0A]"

text \<open>
  \<open>str.capitalize\<close> on ASCII text: the first character in upper case, the others in
  lower case.
\<close>

definition upper_char :: "char \<Rightarrow> char" where
  "upper_char c =
     (case map_of (zip ''abcdefghijklmnopqrstuvwxyz'' ''ABCDEFGHIJKLMNOPQRSTUVWXYZ'') c of
        Some u \<Rightarrow> u
      | None \<Rightarrow> c)"

definition lower_char :: "char \<Rightarrow> char" where
  "lower_char c =
     (case map_of (zip ''ABCDEFGHIJKLMNOPQRSTUVWXYZ'' ''abcdefghijklmnopqrstuvwxyz'') c of
        Some l \<Rightarrow> l
      | None \<Rightarrow> c)"

definition capitalize :: "string \<Rightarrow> string" where
  "capitalize s = (case s of [] \<Rightarrow> [] | c # cs \<Rightarrow> upper_char c # map lower_char cs)"

text \<open>A text between single quotes, as \<open>f"'{name}'"\<close> and \<open>str(KeyError(name))\<close> give it.\<close>

definition quoted :: "string \<Rightarrow> string" where
  "quoted s = [CHR 0x27] @ s @ [CHR 0x27]"

text \<open>\<open>str(x)\<close> of an optional string: \<open>None\<close> prints as the word None.\<close>

definition str_opt :: "string option \<Rightarrow> string" where
  "str_opt v = (case v of None \<Rightarrow> ''None'' | Some s \<Rightarrow> s)"


section \<open>The price lookup \<open>fetch_stock_price\<close>\<close>

text \<open>
  The market-data provider is a collaborator: \<open>history t\<close> is what
  \<open>yf.Ticker(t).history(period="1d")\<close> does, either raising or returning a data frame.
  A frame is its columns, each a name and its values, oldest row first. Prices are
  floating-point numbers of the provider: their type \<open>'f\<close> is a parameter, and so are
  the two functions of Python applied to them, \<open>round(x, ndigits)\<close>, here
  \<open>py_round x ndigits\<close>, and \<open>str(x)\<close>, here \<open>py_str x\<close>.
\<close>

type_synonym 'f frame = "(string \<times> 'f list) list"

text \<open>\<open>DataFrame.empty\<close>: no column, or no row.\<close>

definition frame_empty :: "'f frame \<Rightarrow> bool" where
  "frame_empty df = (case df of [] \<Rightarrow> True | (_, col) # _ \<Rightarrow> col = [])"

text \<open>\<open>stock_data["Close"].iloc[-1]\<close>: KeyError without that column, else its last value.\<close>

definition latest_close :: "'f frame \<Rightarrow> exn + 'f" where
  "latest_close df =
     (case map_of df ''Close'' of
        None \<Rightarrow> Inl (Exn ''KeyError'' [''LookupError'', ''Exception''] (quoted ''Close''))
      | Some col \<Rightarrow>
          if col = [] then Inl (Exn ''IndexError'' [''LookupError'', ''Exception''] ''single positional indexer is out-of-bounds'')
          else Inr (last col))"

text \<open>The body of the \<open>try\<close> block.\<close>

definition fetch_try ::
  "(string \<Rightarrow> exn + 'f frame) \<Rightarrow> ('f \<Rightarrow> nat \<Rightarrow> 'f) \<Rightarrow> ('f \<Rightarrow> string) \<Rightarrow> string
   \<Rightarrow> exn + string" where
  "fetch_try history py_round py_str ticker_symbol =
     (case history ticker_symbol of
        Inl e \<Rightarrow> Inl e
      | Inr stock_data \<Rightarrow>
          if frame_empty stock_data
          then Inr (''Error: No data found for ticker symbol: '' @ ticker_symbol)
          else (case latest_close stock_data of
                  Inl e \<Rightarrow> Inl e
                | Inr latest_close_price \<Rightarrow> Inr (py_str (py_round latest_close_price 3))))"

text \<open>
  The two handlers: \<open>except KeyError\<close> first, which also catches the subclasses of
  KeyError, then \<open>except Exception\<close>.
\<close>

definition fetch_stock_price ::
  "(string \<Rightarrow> exn + 'f frame) \<Rightarrow> ('f \<Rightarrow> nat \<Rightarrow> 'f) \<Rightarrow> ('f \<Rightarrow> string) \<Rightarrow> string
   \<Rightarrow> string" where
  "fetch_stock_price history py_round py_str ticker_symbol =
     (case fetch_try history py_round py_str ticker_symbol of
        Inr s \<Rightarrow> s
      | Inl e \<Rightarrow>
          if is_instance e ''KeyError''
          then ''Error: Data missing for key: '' @ exn_str e @ ''. Verify the ticker symbol.''
          else ''Error: Unexpected issue occurred - '' @ exn_type e @ '': '' @ exn_str e)"

text \<open>
  The call \<open>fetch_stock_price(**kwargs)\<close>: the keyword arguments are a dictionary (an
  association list with distinct keys, in insertion order) whose values are strings, as
  the tool schema of \<open>tools_list\<close> declares \<open>ticker_symbol\<close>. Binding raises TypeError
  for a keyword the function does not have, and for a missing \<open>ticker_symbol\<close>.
\<close>

type_synonym kwargs = "(string \<times> string) list"

definition fetch_stock_price_call ::
  "(string \<Rightarrow> exn + 'f frame) \<Rightarrow> ('f \<Rightarrow> nat \<Rightarrow> 'f) \<Rightarrow> ('f \<Rightarrow> string) \<Rightarrow> kwargs
   \<Rightarrow> exn + string" where
  "fetch_stock_price_call history py_round py_str kw =
     (case filter (\<lambda>k. k \<noteq> ''ticker_symbol'') (map fst kw) of
        k # _ \<Rightarrow>
          Inl (Exn ''TypeError'' [''Exception'']
                 (''fetch_stock_price() got an unexpected keyword argument '' @ quoted k))
      | [] \<Rightarrow>
          (case map_of kw ''ticker_symbol'' of
             None \<Rightarrow>
               Inl (Exn ''TypeError'' [''Exception'']
                      (''fetch_stock_price() missing 1 required positional argument: ''
                       @ quoted ''ticker_symbol''))
           | Some ticker_symbol \<Rightarrow> Inr (fetch_stock_price history py_round py_str ticker_symbol)))"


section \<open>The agent service and the notebook's globals\<close>

text \<open>
  The objects the SDK returns, with the attributes the notebook reads. A tool call of a
  type other than \<open>function\<close> has no \<open>function\<close> attribute. A content part is a text
  part (it has \<open>text.value\<close>), an image-file part (it has \<open>image_file.file_id\<close>), or
  anything else, kept as its \<open>str()\<close>.
\<close>

record function_details =
  fn_name :: string
  fn_arguments :: string

record tool_call =
  call_id :: string
  call_type :: string
  call_function :: "function_details option"

record required_action =
  ra_type :: string
  ra_tool_calls :: "tool_call list option"

record run =
  run_id :: string
  run_status :: string
  run_required_action :: "required_action option"

datatype content_part = TextPart string | ImageFilePart string | OtherPart string

record message =
  msg_role :: string
  msg_content :: "content_part list"

record tool_output =
  tool_call_id :: string
  call_output :: string

text \<open>
  The remote service is a collaborator. Its answers are given: whether
  \<open>create_message\<close> and \<open>create_run\<close> raise, the run that the k-th \<open>get_run\<close> of a
  call returns (k from 0), the run that \<open>submit_tool_outputs_to_run\<close> returns, the
  messages of each thread in creation order at the time they are listed, and the chunks
  of each file. The calls made to it are recorded as events. Failures of the calls that
  the notebook does not wrap in \<open>try\<close> are outside the model.
\<close>

record service =
  create_message_result :: "exn option"
  create_run_result :: "exn + run"
  get_run_result :: "nat \<Rightarrow> run"
  submit_result :: "string \<Rightarrow> string \<Rightarrow> tool_output list \<Rightarrow> run"
  thread_messages :: "string \<Rightarrow> message list"
  file_content :: "string \<Rightarrow> string list"

text \<open>
  \<open>list_messages(thread_id, order)\<close>: ascending creation order when asked for
  \<open>"asc"\<close>; the service's default is descending, most recent first.
\<close>

definition list_messages :: "service \<Rightarrow> string \<Rightarrow> string option \<Rightarrow> message list" where
  "list_messages svc thread_id order =
     (if order = Some ''asc'' then thread_messages svc thread_id
      else rev (thread_messages svc thread_id))"

text \<open>
  The module-level state a cell reads: the agent and thread handles, the registry
  \<open>available_functions\<close>, and whether \<open>./data/sample_chart.png\<close> exists. \<open>json_loads\<close>
  is \<open>json.loads\<close> on an arguments text, a library function taken as given: \<open>Inl\<close> when
  it raises, else the decoded object, whose members are strings; other documents are
  outside the model.
\<close>

type_synonym registry = "string \<rightharpoonup> (kwargs \<Rightarrow> exn + string)"

record notebook =
  agent_id :: string
  global_thread_id :: string
  available_functions :: registry
  json_loads :: "string \<Rightarrow> exn + kwargs"
  chart_exists :: bool

text \<open>
  What a cell does, in order: the calls to the service with their arguments (thread id
  first, then role, content and attachments; agent id and instructions; run id; order;
  tool outputs), the calls to a registered function with its keyword arguments, and the
  local effects \<open>time.sleep\<close>, \<open>print\<close> (the text before the line end that
  \<open>print\<close> adds), and the deletion, writing and display of the chart file.
\<close>

datatype event =
    CreateMessage string string string "string list option"
  | CreateRun string string string
  | GetRun string string
  | ListMessages string "string option"
  | SubmitToolOutputs string string "tool_output list"
  | Invoke string kwargs
  | GetFileContent string
  | Sleep nat
  | Print string
  | Unlink string
  | WriteFile string "string list"
  | ShowImage string

text \<open>
  \<open>func(**json.loads(arguments))\<close> for the registry entry \<open>func\<close> of \<open>name\<close>: the
  arguments are decoded first, and the call is an event.
\<close>

definition invoke ::
  "notebook \<Rightarrow> string \<Rightarrow> (kwargs \<Rightarrow> exn + string) \<Rightarrow> string \<Rightarrow> (exn + string) \<times> event list" where
  "invoke nb name func arguments =
     (case json_loads nb arguments of
        Inl e \<Rightarrow> (Inl e, [])
      | Inr kw \<Rightarrow> (func kw, [Invoke name kw]))"

text \<open>Reading an attribute the object does not have; the text kept is the attribute.\<close>

definition attribute_error :: "string \<Rightarrow> exn" where
  "attribute_error attr = Exn ''AttributeError'' [''Exception''] attr"


section \<open>The manual \<open>requires_action\<close> cell\<close>

text \<open>
  The \<open>for call in tool_calls\<close> loop of the cell, with \<open>tool_responses\<close> as it grows.
  The result is the exception raised or the final \<open>tool_responses\<close>, with what was
  printed.
\<close>

fun manual_tool_calls ::
  "notebook \<Rightarrow> tool_call list \<Rightarrow> tool_output list \<Rightarrow> (exn + tool_output list) \<times> event list" where
  "manual_tool_calls nb [] tool_responses = (Inr tool_responses, [])"
| "manual_tool_calls nb (call # calls) tool_responses =
     (if call_type call = ''function'' then
        (case call_function call of
           None \<Rightarrow> (Inl (attribute_error ''function''), [])
         | Some f \<Rightarrow>
             (case available_functions nb (fn_name f) of
                None \<Rightarrow> (Inl (Exn ''Exception'' [] ''Function requested by the model does not exist''), [])
              | Some function_to_call \<Rightarrow>
                  (case invoke nb (fn_name f) function_to_call (fn_arguments f) of
                     (Inl e, called) \<Rightarrow> (Inl e, called)
                   | (Inr tool_response, called) \<Rightarrow>
                       (case manual_tool_calls nb calls
                               (tool_responses @ [\<lparr>tool_call_id = call_id call, call_output = tool_response\<rparr>]) of
                          (r, evs) \<Rightarrow>
                            (r, called
                                @ Print (''Function '' @ quoted (fn_name f) @ '' called successfully. '' @ nl
                                         @ ''Output: '' @ tool_response @ nl) # evs)))))
      else manual_tool_calls nb calls tool_responses)"

text \<open>
  The cell, run on the global \<open>run\<close>: the result is the exception raised or the new
  value of \<open>run\<close>.
\<close>

definition requires_action_cell :: "notebook \<Rightarrow> service \<Rightarrow> run \<Rightarrow> (exn + run) \<times> event list" where
  "requires_action_cell nb svc run =
     (if run_status run = ''requires_action'' then
        (case run_required_action run of
           None \<Rightarrow> (Inl (attribute_error ''type''), [Print ''Function Calling ...''])
         | Some ra \<Rightarrow>
             (case (case (if ra_type ra = ''submit_tool_outputs'' then ra_tool_calls ra else None) of
                      Some tool_calls \<Rightarrow> manual_tool_calls nb tool_calls []
                    | None \<Rightarrow> (Inr [], [])) of
                (Inl e, evs) \<Rightarrow> (Inl e, Print ''Function Calling ...'' # evs)
              | (Inr tool_responses, evs) \<Rightarrow>
                  (Inr (submit_result svc (global_thread_id nb) (run_id run) tool_responses),
                   Print ''Function Calling ...'' # evs
                   @ [SubmitToolOutputs (global_thread_id nb) (run_id run) tool_responses,
                      Print (''Results submitted successfully. Go back to the first cell, ''
                             @ quoted ''Monitor Run Status'' @ '' and execute again.'')])))
      else (Inr run, [Print (''Navigate to and execute the '' @ run_status run @ '' cell.'')]))"


section \<open>\<open>process_message\<close>\<close>

text \<open>
  The \<open>try\<close> block that adds the prompt and starts the run. Its handler prints and
  falls through, so the local \<open>run\<close> is bound afterwards only if both calls returned:
  the first component is \<open>run\<close>, \<open>None\<close> when it is unbound.
\<close>

definition start_run ::
  "notebook \<Rightarrow> service \<Rightarrow> string \<Rightarrow> string \<Rightarrow> string list option \<Rightarrow> run option \<times> event list" where
  "start_run nb svc thread_id prompt_message attachments_list =
     (case create_message_result svc of
        Some e \<Rightarrow>
          (None,
           [CreateMessage thread_id ''user'' prompt_message attachments_list,
            Print (''Error starting run: '' @ exn_str e)])
      | None \<Rightarrow>
          (case create_run_result svc of
             Inl e \<Rightarrow>
               (None,
                [CreateMessage thread_id ''user'' prompt_message attachments_list,
                 Print ''User message added...'',
                 CreateRun thread_id (agent_id nb) prompt_message,
                 Print (''Error starting run: '' @ exn_str e)])
           | Inr run \<Rightarrow>
               (Some run,
                [CreateMessage thread_id ''user'' prompt_message attachments_list,
                 Print ''User message added...'',
                 CreateRun thread_id (agent_id nb) prompt_message,
                 Print ''Run started...''])))"

definition chart_path :: string where
  "chart_path = ''./data/sample_chart.png''"

text \<open>
  The \<open>for message_content in thread_message.content\<close> loop: \<open>content\<close> is the local
  variable the loop assigns, \<open>exists\<close> whether the chart file exists. The result is the
  final \<open>content\<close>, the final \<open>exists\<close> and the events.
\<close>

fun handle_content ::
  "service \<Rightarrow> content_part list \<Rightarrow> string option \<Rightarrow> bool \<Rightarrow> string option \<times> bool \<times> event list" where
  "handle_content svc [] content exists = (content, exists, [])"
| "handle_content svc (TextPart v # parts) content exists = handle_content svc parts (Some v) exists"
| "handle_content svc (ImageFilePart file_id # parts) content exists =
     (case handle_content svc parts content True of
        (content', exists', evs) \<Rightarrow>
          (content', exists',
           GetFileContent file_id
           # (if exists
              then [Unlink chart_path, Print ''Deleted existing file: ./data/sample_chart.png'']
              else [])
           @ [WriteFile chart_path (file_content svc file_id),
              Print (''Image File downloaded to '' @ quoted ''./data'' @ '' successfully.''),
              ShowImage chart_path]
           @ evs))"
| "handle_content svc (OtherPart s # parts) content exists = handle_content svc parts (Some s) exists"

text \<open>
  The \<open>for thread_message in thread_messages.data\<close> loop: a message with an empty
  content list prints nothing; any other prints one line after its parts are handled.
\<close>

fun print_messages :: "service \<Rightarrow> message list \<Rightarrow> bool \<Rightarrow> event list" where
  "print_messages svc [] exists = []"
| "print_messages svc (thread_message # rest) exists =
     (if msg_content thread_message \<noteq> [] then
        (case handle_content svc (msg_content thread_message) None exists of
           (content, exists', evs) \<Rightarrow>
             evs
             @ [Print (capitalize (msg_role thread_message) @ '': '' @ str_opt content)]
             @ print_messages svc rest exists')
      else print_messages svc rest exists)"

text \<open>\<open>messages.data[0].content[0].text.value\<close> of the \<open>failed\<close> branch.\<close>

definition failure_answer :: "message list \<Rightarrow> exn + string" where
  "failure_answer data =
     (case data of
        [] \<Rightarrow> Inl (Exn ''IndexError'' [''LookupError'', ''Exception''] ''list index out of range'')
      | m # _ \<Rightarrow>
          (case msg_content m of
             [] \<Rightarrow> Inl (Exn ''IndexError'' [''LookupError'', ''Exception''] ''list index out of range'')
           | TextPart v # _ \<Rightarrow> Inr v
           | _ # _ \<Rightarrow> Inl (attribute_error ''text'')))"

text \<open>
  The \<open>for call in tool_calls\<close> loop of \<open>process_message\<close>. Its \<open>if\<close> reads
  \<open>call.function.name\<close> when the type is \<open>function\<close>, and its \<open>else\<close> branch reads it
  for the message: a call without that attribute raises AttributeError either way.
\<close>

fun dispatch_tool_calls ::
  "notebook \<Rightarrow> tool_call list \<Rightarrow> tool_output list \<Rightarrow> (exn + tool_output list) \<times> event list" where
  "dispatch_tool_calls nb [] tool_responses = (Inr tool_responses, [])"
| "dispatch_tool_calls nb (call # calls) tool_responses =
     (case call_function call of
        None \<Rightarrow> (Inl (attribute_error ''function''), [])
      | Some f \<Rightarrow>
          (case (if call_type call = ''function'' then available_functions nb (fn_name f) else None) of
             Some func \<Rightarrow>
               (case invoke nb (fn_name f) func (fn_arguments f) of
                  (Inl e, called) \<Rightarrow> (Inl e, called)
                | (Inr tool_response, called) \<Rightarrow>
                    (case dispatch_tool_calls nb calls
                            (tool_responses @ [\<lparr>tool_call_id = call_id call, call_output = tool_response\<rparr>]) of
                       (r, evs) \<Rightarrow>
                         (r, called
                             @ Print (''Executed '' @ quoted (fn_name f) @ ''. Output: '' @ tool_response) # evs)))
           | None \<Rightarrow>
               (Inl (Exn ''ValueError'' [''Exception'']
                       (''Requested function '' @ quoted (fn_name f) @ '' is not available.'')), [])))"

text \<open>
  One iteration of \<open>while True\<close>. \<open>run_var\<close> is the local variable \<open>run\<close> as the
  iteration finds it and \<open>k\<close> counts the polls made so far. The iteration ends the loop,
  by \<open>break\<close> (\<open>Inr ()\<close>: the function then returns \<open>None\<close>) or by an exception, or
  it goes on with a new value of \<open>run\<close>. Reading \<open>run.id\<close> while \<open>run\<close> is
  unbound raises UnboundLocalError, with the text of CPython 3.11.
\<close>

datatype control = Break "exn + unit" | Continue run

definition poll_step ::
  "notebook \<Rightarrow> service \<Rightarrow> string \<Rightarrow> string \<Rightarrow> run option \<Rightarrow> nat \<Rightarrow> event list \<times> control" where
  "poll_step nb svc thread_id prompt_message run_var k =
     (case run_var of
        None \<Rightarrow>
          ([Sleep 5],
           Break (Inl (Exn ''UnboundLocalError'' [''NameError'', ''Exception'']
                         (''cannot access local variable '' @ quoted ''run''
                          @ '' where it is not associated with a value''))))
      | Some old \<Rightarrow>
          (let run = get_run_result svc k;
               polled = [Sleep 5, GetRun thread_id (run_id old),
                         Print (''Run Status: '' @ run_status run @ nl)]
           in
           if run_status run = ''completed'' then
             (polled @ [ListMessages thread_id (Some ''asc'')]
              @ print_messages svc (list_messages svc thread_id (Some ''asc'')) (chart_exists nb),
              Break (Inr ()))
           else if run_status run = ''failed'' then
             (case failure_answer (list_messages svc (global_thread_id nb) None) of
                Inl e \<Rightarrow> (polled @ [ListMessages (global_thread_id nb) None], Break (Inl e))
              | Inr answer \<Rightarrow>
                  (polled
                   @ [ListMessages (global_thread_id nb) None,
                      Print (''Failed User:'' @ nl @ prompt_message @ nl @ ''Agent:'' @ nl @ answer @ nl)],
                   Break (Inr ())))
           else if run_status run = ''requires_action'' then
             (case run_required_action run of
                None \<Rightarrow> (polled, Break (Inl (attribute_error ''type'')))
              | Some ra \<Rightarrow>
                  if ra_type ra = ''submit_tool_outputs'' then
                    (case ra_tool_calls ra of
                       None \<Rightarrow>
                         (polled @ [Print ''Function calling initiated...''],
                          Break (Inl (Exn ''TypeError'' [''Exception'']
                                        (quoted ''NoneType'' @ '' object is not iterable''))))
                     | Some tool_calls \<Rightarrow>
                         (case dispatch_tool_calls nb tool_calls [] of
                            (Inl e, evs) \<Rightarrow>
                              (polled @ Print ''Function calling initiated...'' # evs, Break (Inl e))
                          | (Inr tool_responses, evs) \<Rightarrow>
                              (polled @ Print ''Function calling initiated...'' # evs
                               @ [SubmitToolOutputs thread_id (run_id run) tool_responses,
                                  Print ''Function call(s) completed successfully.''],
                               Continue (submit_result svc thread_id (run_id run) tool_responses))))
                  else (polled @ [Sleep 5], Continue run))
           else (polled @ [Sleep 5], Continue run)))"

text \<open>
  The loop, with fuel: \<open>None\<close> when the fuel runs out before the loop ends, else the
  outcome of \<open>process_message\<close> from here on and the events in order.
\<close>

fun poll_loop ::
  "nat \<Rightarrow> notebook \<Rightarrow> service \<Rightarrow> string \<Rightarrow> string \<Rightarrow> run option \<Rightarrow> nat
   \<Rightarrow> ((exn + unit) \<times> event list) option" where
  "poll_loop 0 nb svc thread_id prompt_message run_var k = None"
| "poll_loop (Suc fuel) nb svc thread_id prompt_message run_var k =
     (case poll_step nb svc thread_id prompt_message run_var k of
        (evs, Break outcome) \<Rightarrow> Some (outcome, evs)
      | (evs, Continue run) \<Rightarrow>
          (case poll_loop fuel nb svc thread_id prompt_message (Some run) (Suc k) of
             None \<Rightarrow> None
           | Some (outcome, later) \<Rightarrow> Some (outcome, evs @ later)))"

definition process_message ::
  "nat \<Rightarrow> notebook \<Rightarrow> service \<Rightarrow> string \<Rightarrow> string \<Rightarrow> string list option
   \<Rightarrow> ((exn + unit) \<times> event list) option" where
  "process_message fuel nb svc thread_id prompt_message attachments_list =
     (case start_run nb svc thread_id prompt_message attachments_list of
        (run_var, evs) \<Rightarrow>
          (case poll_loop fuel nb svc thread_id prompt_message run_var 0 of
             None \<Rightarrow> None
           | Some (outcome, later) \<Rightarrow> Some (outcome, evs @ later)))"


section \<open>Notions used by the properties\<close>

fun is_submit :: "event \<Rightarrow> bool" where
  "is_submit (SubmitToolOutputs thread_id rid outs) = True"
| "is_submit ev = False"

fun is_get_run :: "event \<Rightarrow> bool" where
  "is_get_run (GetRun thread_id rid) = True"
| "is_get_run ev = False"

fun is_invoke :: "event \<Rightarrow> bool" where
  "is_invoke (Invoke name kw) = True"
| "is_invoke ev = False"

text \<open>The calls that change what the service holds: messages, runs, tool outputs.\<close>

fun modifies_remote :: "event \<Rightarrow> bool" where
  "modifies_remote (CreateMessage thread_id role content attachments) = True"
| "modifies_remote (CreateRun thread_id agent instructions) = True"
| "modifies_remote (SubmitToolOutputs thread_id rid outs) = True"
| "modifies_remote ev = False"

text \<open>What the line printed for a message shows of a part that is not an image.\<close>

fun is_image :: "content_part \<Rightarrow> bool" where
  "is_image (ImageFilePart file_id) = True"
| "is_image part = False"

fun is_text :: "content_part \<Rightarrow> bool" where
  "is_text (TextPart v) = True"
| "is_text part = False"

fun part_text :: "content_part \<Rightarrow> string" where
  "part_text (TextPart v) = v"
| "part_text (OtherPart s) = s"
| "part_text (ImageFilePart file_id) = []"


text \<open>
  What the registered function returns for a call, when the call names a registered
  function, its arguments decode, and the function returns.
\<close>

definition call_response :: "notebook \<Rightarrow> tool_call \<Rightarrow> string option" where
  "call_response nb call =
     (case call_function call of
        None \<Rightarrow> None
      | Some f \<Rightarrow>
          (case available_functions nb (fn_name f) of
             None \<Rightarrow> None
           | Some func \<Rightarrow>
               (case json_loads nb (fn_arguments f) of
                  Inl e \<Rightarrow> None
                | Inr kw \<Rightarrow> (case func kw of Inl e \<Rightarrow> None | Inr out \<Rightarrow> Some out))))"

text \<open>The pair \<open>{"tool_call_id": call.id, "output": tool_response}\<close> of a call.\<close>

definition answered :: "notebook \<Rightarrow> tool_call \<Rightarrow> tool_output" where
  "answered nb call = \<lparr>tool_call_id = call_id call, call_output = the (call_response nb call)\<rparr>"


text \<open>A run in \<open>requires_action\<close> that asks for the outputs of the calls \<open>calls\<close>.\<close>

definition asks_for :: "run \<Rightarrow> tool_call list \<Rightarrow> bool" where
  "asks_for run calls =
     (run_status run = ''requires_action'' \<and>
      (case run_required_action run of
         None \<Rightarrow> False
       | Some ra \<Rightarrow> ra_type ra = ''submit_tool_outputs'' \<and> ra_tool_calls ra = Some calls))"

text \<open>The first three events of an iteration that polls.\<close>

definition polled :: "string \<Rightarrow> run \<Rightarrow> run \<Rightarrow> event list" where
  "polled thread_id old run =
     [Sleep 5, GetRun thread_id (run_id old), Print (''Run Status: '' @ run_status run @ nl)]"


section \<open>A sample session\<close>

text \<open>
  A provider that knows MSFT, has an empty frame for ZZZZ, raises KeyError for DLST,
  raises ZoneInfoNotFoundError, a subclass of KeyError, for TZNF, has a frame without
  the \<open>Close\<close> column for NOCL, and fails to connect for anything else. Prices are
  kept as the text of the floating-point number: \<open>ex_str\<close> is that text, and \<open>ex_round\<close> is \<open>round\<close> on the one price of the
  sample, to three decimal places. \<open>ex_json_loads\<close> is \<open>json.loads\<close> on the texts the
  samples use: the MSFT arguments and \<open>{}\<close> decode, and \<open>{\<close> is rejected.
\<close>

definition ex_history :: "string \<Rightarrow> exn + string frame" where
  "ex_history t =
     (if t = ''MSFT'' then Inr [(''Open'', [''410.1'']), (''Close'', [''415.4949951171875''])]
      else if t = ''ZZZZ'' then Inr []
      else if t = ''NOCL'' then Inr [(''Open'', [''12.5''])]
      else if t = ''DLST'' then
        Inl (Exn ''KeyError'' [''LookupError'', ''Exception''] (quoted ''regularMarketPrice''))
      else if t = ''TZNF'' then
        Inl (Exn ''ZoneInfoNotFoundError'' [''KeyError'', ''LookupError'', ''Exception'']
               (quoted ''No time zone found with key Amerika/New_York''))
      else Inl (Exn ''ConnectionError'' [''OSError'', ''Exception''] ''network unreachable''))"

definition ex_round :: "string \<Rightarrow> nat \<Rightarrow> string" where
  "ex_round x ndigits = (if x = ''415.4949951171875'' \<and> ndigits = 3 then ''415.495'' else x)"

definition ex_str :: "string \<Rightarrow> string" where
  "ex_str x = x"

definition ex_json_loads :: "string \<Rightarrow> exn + kwargs" where
  "ex_json_loads a =
     (if a = ''{\"ticker_symbol\": \"MSFT\"}'' then Inr [(''ticker_symbol'', ''MSFT'')]
      else if a = ''{}'' then Inr []
      else if a = ''{'' then
        Inl (Exn ''JSONDecodeError'' [''ValueError'', ''Exception'']
               ''Expecting property name enclosed in double quotes: line 1 column 2 (char 1)'')
      else Inl (Exn ''JSONDecodeError'' [''ValueError'', ''Exception''] ''Expecting value: line 1 column 1 (char 0)''))"

definition ex_notebook :: notebook where
  "ex_notebook =
     \<lparr>agent_id = ''asst_1'', global_thread_id = ''thread_1'',
      available_functions =
        [''fetch_stock_price'' \<mapsto> fetch_stock_price_call ex_history ex_round ex_str],
      json_loads = ex_json_loads, chart_exists = False\<rparr>"

definition ex_run :: "string \<Rightarrow> run" where
  "ex_run status = \<lparr>run_id = ''run_1'', run_status = status, run_required_action = None\<rparr>"

definition ex_requires_action :: "tool_call list \<Rightarrow> run" where
  "ex_requires_action calls =
     \<lparr>run_id = ''run_1'', run_status = ''requires_action'',
      run_required_action =
        Some \<lparr>ra_type = ''submit_tool_outputs'', ra_tool_calls = Some calls\<rparr>\<rparr>"

definition ex_call :: "string \<Rightarrow> string \<Rightarrow> string \<Rightarrow> tool_call" where
  "ex_call cid name arguments =
     \<lparr>call_id = cid, call_type = ''function'',
      call_function = Some \<lparr>fn_name = name, fn_arguments = arguments\<rparr>\<rparr>"

definition ex_msft_call :: tool_call where
  "ex_msft_call = ex_call ''call_1'' ''fetch_stock_price'' ''{\"ticker_symbol\": \"MSFT\"}''"

definition ex_messages :: "string \<Rightarrow> message list" where
  "ex_messages thread_id =
     (if thread_id = ''thread_1'' then
        [\<lparr>msg_role = ''user'', msg_content = [TextPart ''What is the price?'']\<rparr>,
         \<lparr>msg_role = ''assistant'', msg_content = [TextPart ''It closed at 415.495.'']\<rparr>]
      else if thread_id = ''thread_2'' then
        [\<lparr>msg_role = ''user'', msg_content = [TextPart ''Plot my holdings'']\<rparr>,
         \<lparr>msg_role = ''assistant'', msg_content = [TextPart ''The sandbox ran out of memory.'']\<rparr>]
      else if thread_id = ''thread_3'' then
        [\<lparr>msg_role = ''user'', msg_content = [TextPart ''What is the price?'']\<rparr>,
         \<lparr>msg_role = ''assistant'',
          msg_content = [TextPart ''MSFT closed at 415.495.'', TextPart ''Your position is worth 4154.95.'']\<rparr>]
      else if thread_id = ''thread_4'' then
        [\<lparr>msg_role = ''user'', msg_content = [TextPart ''What is the price?'']\<rparr>,
         \<lparr>msg_role = ''assistant'', msg_content = []\<rparr>]
      else if thread_id = ''thread_5'' then
        [\<lparr>msg_role = ''user'', msg_content = [TextPart ''Show a pie chart'']\<rparr>,
         \<lparr>msg_role = ''assistant'',
          msg_content = [ImageFilePart ''file_9'', TextPart ''Here is the chart.'']\<rparr>]
      else [])"

text \<open>Polls that all find the same run.\<close>

definition every_poll :: "run \<Rightarrow> nat \<Rightarrow> run" where
  "every_poll run k = run"

text \<open>A service that accepts the prompt and the run and answers the polls as given.\<close>

definition ex_service :: "(nat \<Rightarrow> run) \<Rightarrow> service" where
  "ex_service polls =
     \<lparr>create_message_result = None, create_run_result = Inr (ex_run ''queued''),
      get_run_result = polls,
      submit_result = (\<lambda>thread_id rid outs. ex_run ''queued''),
      thread_messages = ex_messages,
      file_content = (\<lambda>file_id. [''PNG''])\<rparr>"


section \<open>Lemmas on the two dispatch loops\<close>

lemma dispatch_events_no_submit:
  "list_all (\<lambda>ev. \<not> is_submit ev) (snd (dispatch_tool_calls nb calls acc))"
  by (induction calls arbitrary: acc)
     (auto simp: invoke_def split_beta split: option.splits sum.splits if_splits)

lemma manual_events_no_submit:
  "list_all (\<lambda>ev. \<not> is_submit ev) (snd (manual_tool_calls nb calls acc))"
  by (induction calls arbitrary: acc)
     (auto simp: invoke_def split_beta split: option.splits sum.splits if_splits)

lemma dispatch_all_answered:
  "\<forall>c\<in>set calls. call_type c = ''function'' \<and> call_response nb c \<noteq> None \<Longrightarrow>
   fst (dispatch_tool_calls nb calls acc) = Inr (acc @ map (answered nb) calls)"
  by (induction calls arbitrary: acc)
     (auto simp: invoke_def call_response_def answered_def split_beta split: option.splits sum.splits)

lemma manual_all_answered:
  "\<forall>c\<in>set calls. call_type c = ''function'' \<and> call_response nb c \<noteq> None \<Longrightarrow>
   fst (manual_tool_calls nb calls acc) = Inr (acc @ map (answered nb) calls)"
  by (induction calls arbitrary: acc)
     (auto simp: invoke_def call_response_def answered_def split_beta split: option.splits sum.splits)







section \<open>Lemmas on the iteration and the loop\<close>

text \<open>An iteration that finds a batch of calls, in both code paths.\<close>

lemma poll_step_batch:
  assumes "asks_for (get_run_result svc k) calls"
  shows "poll_step nb svc thread_id prompt (Some old) k =
    (case dispatch_tool_calls nb calls [] of
       (Inl e, evs) \<Rightarrow>
         (polled thread_id old (get_run_result svc k) @ Print ''Function calling initiated...'' # evs,
          Break (Inl e))
     | (Inr outs, evs) \<Rightarrow>
         (polled thread_id old (get_run_result svc k) @ Print ''Function calling initiated...'' # evs
          @ [SubmitToolOutputs thread_id (run_id (get_run_result svc k)) outs,
             Print ''Function call(s) completed successfully.''],
          Continue (submit_result svc thread_id (run_id (get_run_result svc k)) outs)))"
  using assms
  by (auto simp: poll_step_def asks_for_def polled_def Let_def split: option.splits prod.splits sum.splits)

lemma cell_batch:
  assumes "asks_for run calls"
  shows "requires_action_cell nb svc run =
    (case manual_tool_calls nb calls [] of
       (Inl e, evs) \<Rightarrow> (Inl e, Print ''Function Calling ...'' # evs)
     | (Inr outs, evs) \<Rightarrow>
         (Inr (submit_result svc (global_thread_id nb) (run_id run) outs),
          Print ''Function Calling ...'' # evs
          @ [SubmitToolOutputs (global_thread_id nb) (run_id run) outs,
             Print (''Results submitted successfully. Go back to the first cell, ''
                    @ quoted ''Monitor Run Status'' @ '' and execute again.'')]))"
  using assms
  by (auto simp: requires_action_cell_def asks_for_def split: option.splits prod.splits sum.splits)

lemma poll_step_idle:
  assumes "run_status (get_run_result svc k) = ''queued'' \<or> run_status (get_run_result svc k) = ''in_progress''"
  shows "poll_step nb svc thread_id prompt (Some old) k =
     (polled thread_id old (get_run_result svc k) @ [Sleep 5], Continue (get_run_result svc k))"
  using assms by (auto simp: poll_step_def polled_def Let_def)

lemma poll_step_break:
  assumes "poll_step nb svc thread_id prompt (Some old) k = (evs, Break out)"
  shows "run_status (get_run_result svc k) = ''completed''
       \<or> run_status (get_run_result svc k) = ''failed''
       \<or> (run_status (get_run_result svc k) = ''requires_action'' \<and> (\<exists>e. out = Inl e))"
  using assms
  by (auto simp: poll_step_def Let_def split: if_splits option.splits sum.splits prod.splits)

lemma poll_loop_exit:
  "poll_loop fuel nb svc thread_id prompt (Some old) k = Some (out, evs) \<Longrightarrow>
   \<exists>j. k \<le> j \<and> j < k + fuel \<and>
       (run_status (get_run_result svc j) = ''completed''
        \<or> run_status (get_run_result svc j) = ''failed''
        \<or> (run_status (get_run_result svc j) = ''requires_action'' \<and> (\<exists>e. out = Inl e)))"
proof (induction fuel arbitrary: old k evs)
  case 0
  then show ?case by simp
next
  case (Suc fuel)
  obtain evs0 ctl where step: "poll_step nb svc thread_id prompt (Some old) k = (evs0, ctl)"
    by (cases "poll_step nb svc thread_id prompt (Some old) k")
  show ?case
  proof (cases ctl)
    case (Break res)
    with step Suc.prems have "res = out" by simp
    with step Break poll_step_break[of nb svc thread_id prompt old k evs0 out]
    show ?thesis by (intro exI[of _ k]) auto
  next
    case (Continue run)
    with step Suc.prems obtain later where
      "poll_loop fuel nb svc thread_id prompt (Some run) (Suc k) = Some (out, later)"
      by (auto split: option.splits)
    from Suc.IH[OF this] obtain j where "Suc k \<le> j" "j < Suc k + fuel"
      "run_status (get_run_result svc j) = ''completed''
        \<or> run_status (get_run_result svc j) = ''failed''
        \<or> (run_status (get_run_result svc j) = ''requires_action'' \<and> (\<exists>e. out = Inl e))"
      by blast
    then show ?thesis by (intro exI[of _ j]) auto
  qed
qed

lemma poll_loop_forever:
  "\<forall>j. run_status (get_run_result svc j) = ''queued'' \<or> run_status (get_run_result svc j) = ''in_progress'' \<Longrightarrow>
   poll_loop fuel nb svc thread_id prompt (Some old) k = None"
  by (induction fuel arbitrary: old k) (simp_all add: poll_step_idle)

lemma poll_loop_more_fuel:
  "poll_loop fuel nb svc thread_id prompt run_var k = Some res \<Longrightarrow>
   poll_loop (fuel + extra) nb svc thread_id prompt run_var k = Some res"
  by (induction fuel arbitrary: run_var k res)
     (auto split: prod.splits control.splits option.splits)



lemma dispatch_events_no_get_run:
  "list_all (\<lambda>ev. \<not> is_get_run ev) (snd (dispatch_tool_calls nb calls acc))"
  by (induction calls arbitrary: acc)
     (auto simp: invoke_def split_beta split: option.splits sum.splits if_splits)



lemma poll_step_failed:
  assumes "run_status (get_run_result svc k) = ''failed''"
      and "thread_messages svc (global_thread_id nb) = older @ [m]"
      and "msg_content m = TextPart answer # parts"
  shows "poll_step nb svc thread_id prompt (Some old) k =
     ([Sleep 5, GetRun thread_id (run_id old), Print (''Run Status: failed'' @ nl),
       ListMessages (global_thread_id nb) None,
       Print (''Failed User:'' @ nl @ prompt @ nl @ ''Agent:'' @ nl @ answer @ nl)],
      Break (Inr ()))"
  using assms by (simp add: poll_step_def Let_def list_messages_def failure_answer_def)

text \<open>
  Without image parts, one line is printed for each message whose content list is not
  empty, and it shows the last part only.
\<close>

lemma handle_content_no_image:
  "list_all (\<lambda>part. \<not> is_image part) parts \<Longrightarrow>
   handle_content svc parts content ex =
     (if parts = [] then content else Some (part_text (last parts)), ex, [])"
  by (induction svc parts content ex rule: handle_content.induct) auto

lemma print_messages_no_image:
  "list_all (\<lambda>m. list_all (\<lambda>part. \<not> is_image part) (msg_content m)) msgs \<Longrightarrow>
   print_messages svc msgs ex =
     map (\<lambda>m. Print (capitalize (msg_role m) @ '': '' @ part_text (last (msg_content m))))
       (filter (\<lambda>m. msg_content m \<noteq> []) msgs)"
  by (induction msgs) (auto simp: handle_content_no_image str_opt_def)



text \<open>\<open>process_message\<close> is the loop after the two calls that start the run.\<close>

lemma process_message_started:
  assumes "create_message_result svc = None" and "create_run_result svc = Inr run"
  shows "process_message fuel nb svc thread_id prompt attachments =
     (case poll_loop fuel nb svc thread_id prompt (Some run) 0 of
        None \<Rightarrow> None
      | Some (outcome, later) \<Rightarrow>
          Some (outcome,
            [CreateMessage thread_id ''user'' prompt attachments, Print ''User message added...'',
             CreateRun thread_id (agent_id nb) prompt, Print ''Run started...''] @ later))"
  using assms by (simp add: process_message_def start_run_def)

lemma process_message_not_started:
  assumes "fst (start_run nb svc thread_id prompt attachments) = None"
  shows "process_message (Suc fuel) nb svc thread_id prompt attachments =
     Some (Inl (Exn ''UnboundLocalError'' [''NameError'', ''Exception'']
                  (''cannot access local variable '' @ quoted ''run''
                   @ '' where it is not associated with a value'')),
           snd (start_run nb svc thread_id prompt attachments) @ [Sleep 5])"
  using assms
  by (cases "start_run nb svc thread_id prompt attachments")
     (simp add: process_message_def poll_step_def)


section \<open>Lemmas on text\<close>

lemma sublist_mid: "sublist xs (ps @ xs @ ss)"
  by (auto simp: sublist_def)

lemma sublist_end: "sublist xs (ps @ xs)"
  using sublist_mid[of xs ps "[]"] by simp


section \<open>Dispatch of tool calls\<close>




text \<open>
  C2, as the code has it. Let the run ask for the outputs of \<open>N\<close> calls, each of type
  \<open>function\<close> and answered: its function is registered, its arguments decode, and the
  function returns. Then both paths build the list of \<open>N\<close> pairs \<open>answered nb c\<close>,
  one per call, in the order of the calls and keyed by the call's id, and submit it in
  one \<open>submit_tool_outputs_to_run\<close>, the only one of the iteration (of the cell). In
  \<open>process_message\<close> the submission comes after the iteration's poll and ends the
  iteration but for a print, so the next poll comes after it.
\<close>

theorem answered_batch_is_submitted_once:
  assumes "asks_for run calls"
      and "get_run_result svc k = run"
      and "\<forall>c\<in>set calls. call_type c = ''function'' \<and> call_response nb c \<noteq> None"
  shows "poll_step nb svc thread_id prompt (Some old) k =
           (polled thread_id old run @ Print ''Function calling initiated...''
            # snd (dispatch_tool_calls nb calls [])
            @ [SubmitToolOutputs thread_id (run_id run) (map (answered nb) calls),
               Print ''Function call(s) completed successfully.''],
            Continue (submit_result svc thread_id (run_id run) (map (answered nb) calls)))
       \<and> requires_action_cell nb svc run =
           (Inr (submit_result svc (global_thread_id nb) (run_id run) (map (answered nb) calls)),
            Print ''Function Calling ...'' # snd (manual_tool_calls nb calls [])
            @ [SubmitToolOutputs (global_thread_id nb) (run_id run) (map (answered nb) calls),
               Print (''Results submitted successfully. Go back to the first cell, ''
                      @ quoted ''Monitor Run Status'' @ '' and execute again.'')])
       \<and> length (map (answered nb) calls) = length calls
       \<and> map tool_call_id (map (answered nb) calls) = map call_id calls
       \<and> list_all (\<lambda>ev. \<not> is_submit ev \<and> \<not> is_get_run ev) (snd (dispatch_tool_calls nb calls []))
       \<and> list_all (\<lambda>ev. \<not> is_submit ev) (snd (manual_tool_calls nb calls []))"
proof -
  have d: "fst (dispatch_tool_calls nb calls []) = Inr (map (answered nb) calls)"
    using dispatch_all_answered[OF assms(3), of "[]"] by simp
  have m: "fst (manual_tool_calls nb calls []) = Inr (map (answered nb) calls)"
    using manual_all_answered[OF assms(3), of "[]"] by simp
  have a: "asks_for (get_run_result svc k) calls"
    using assms(1,2) by simp
  have 1: "poll_step nb svc thread_id prompt (Some old) k =
           (polled thread_id old run @ Print ''Function calling initiated...''
            # snd (dispatch_tool_calls nb calls [])
            @ [SubmitToolOutputs thread_id (run_id run) (map (answered nb) calls),
               Print ''Function call(s) completed successfully.''],
            Continue (submit_result svc thread_id (run_id run) (map (answered nb) calls)))"
    using d assms(2) by (cases "dispatch_tool_calls nb calls []") (simp add: poll_step_batch[OF a])
  have 2: "requires_action_cell nb svc run =
           (Inr (submit_result svc (global_thread_id nb) (run_id run) (map (answered nb) calls)),
            Print ''Function Calling ...'' # snd (manual_tool_calls nb calls [])
            @ [SubmitToolOutputs (global_thread_id nb) (run_id run) (map (answered nb) calls),
               Print (''Results submitted successfully. Go back to the first cell, ''
                      @ quoted ''Monitor Run Status'' @ '' and execute again.'')])"
    using m by (cases "manual_tool_calls nb calls []") (simp add: cell_batch[OF assms(1)])
  have 3: "map tool_call_id (map (answered nb) calls) = map call_id calls"
    by (simp add: answered_def)
  have 4: "list_all (\<lambda>ev. \<not> is_submit ev \<and> \<not> is_get_run ev) (snd (dispatch_tool_calls nb calls []))"
    using dispatch_events_no_submit[of nb calls "[]"] dispatch_events_no_get_run[of nb calls "[]"]
    by (simp add: list_all_iff)
  show ?thesis
    using 1 2 3 4 manual_events_no_submit[of nb calls "[]"] by simp
qed

text \<open>The batch of the one MSFT call: one pair, submitted once, in both paths.\<close>

theorem answered_batch_is_submitted_once_witness:
  "poll_step ex_notebook (ex_service (every_poll (ex_requires_action [ex_msft_call]))) ''thread_1''
     ''What is the price?'' (Some (ex_run ''queued'')) 0 =
     ([Sleep 5, GetRun ''thread_1'' ''run_1'', Print (''Run Status: requires_action'' @ nl),
       Print ''Function calling initiated...'',
       Invoke ''fetch_stock_price'' [(''ticker_symbol'', ''MSFT'')],
       Print (''Executed '' @ quoted ''fetch_stock_price'' @ ''. Output: 415.495''),
       SubmitToolOutputs ''thread_1'' ''run_1'' [\<lparr>tool_call_id = ''call_1'', call_output = ''415.495''\<rparr>],
       Print ''Function call(s) completed successfully.''],
      Continue (ex_run ''queued''))
   \<and> requires_action_cell ex_notebook (ex_service (every_poll (ex_requires_action [ex_msft_call])))
       (ex_requires_action [ex_msft_call]) =
     (Inr (ex_run ''queued''),
      [Print ''Function Calling ...'',
       Invoke ''fetch_stock_price'' [(''ticker_symbol'', ''MSFT'')],
       Print (''Function '' @ quoted ''fetch_stock_price'' @ '' called successfully. '' @ nl
              @ ''Output: 415.495'' @ nl),
       SubmitToolOutputs ''thread_1'' ''run_1'' [\<lparr>tool_call_id = ''call_1'', call_output = ''415.495''\<rparr>],
       Print (''Results submitted successfully. Go back to the first cell, ''
              @ quoted ''Monitor Run Status'' @ '' and execute again.'')])"
proof -
  have h1: "asks_for (ex_requires_action [ex_msft_call]) [ex_msft_call]"
    by (simp add: asks_for_def ex_requires_action_def)
  have h2: "get_run_result (ex_service (every_poll (ex_requires_action [ex_msft_call]))) 0 =
      ex_requires_action [ex_msft_call]"
    by (simp add: ex_service_def every_poll_def)
  have r: "call_response ex_notebook ex_msft_call = Some ''415.495''"
    by (simp add: call_response_def ex_msft_call_def ex_call_def ex_notebook_def ex_json_loads_def
          fetch_stock_price_call_def fetch_stock_price_def fetch_try_def ex_history_def
          frame_empty_def latest_close_def ex_round_def ex_str_def)
  have h3: "\<forall>c\<in>set [ex_msft_call]. call_type c = ''function'' \<and> call_response ex_notebook c \<noteq> None"
    by (simp add: r) (simp add: ex_msft_call_def ex_call_def)
  have d: "snd (dispatch_tool_calls ex_notebook [ex_msft_call] []) =
      [Invoke ''fetch_stock_price'' [(''ticker_symbol'', ''MSFT'')],
       Print (''Executed '' @ quoted ''fetch_stock_price'' @ ''. Output: 415.495'')]"
    by (simp add: invoke_def ex_msft_call_def ex_call_def ex_notebook_def ex_json_loads_def
          fetch_stock_price_call_def fetch_stock_price_def fetch_try_def ex_history_def
          frame_empty_def latest_close_def ex_round_def ex_str_def)
  have m: "snd (manual_tool_calls ex_notebook [ex_msft_call] []) =
      [Invoke ''fetch_stock_price'' [(''ticker_symbol'', ''MSFT'')],
       Print (''Function '' @ quoted ''fetch_stock_price'' @ '' called successfully. '' @ nl
              @ ''Output: 415.495'' @ nl)]"
    by (simp add: invoke_def ex_msft_call_def ex_call_def ex_notebook_def ex_json_loads_def
          fetch_stock_price_call_def fetch_stock_price_def fetch_try_def ex_history_def
          frame_empty_def latest_close_def ex_round_def ex_str_def)
  have a: "map (answered ex_notebook) [ex_msft_call] =
      [\<lparr>tool_call_id = ''call_1'', call_output = ''415.495''\<rparr>]"
    by (simp add: answered_def r) (simp add: ex_msft_call_def ex_call_def)
  show ?thesis
    using answered_batch_is_submitted_once[OF h1 h2 h3, of "''thread_1''" "''What is the price?''"
            "ex_run ''queued''"]
    unfolding d m a
    by (simp add: polled_def ex_requires_action_def ex_run_def ex_service_def every_poll_def ex_notebook_def)
qed

text \<open>
  C2 as written fails: a type of \<open>function\<close> and a registered name are not enough.
  The one call of this batch names the registered \<open>fetch_stock_price\<close> with the
  arguments \<open>{}\<close>; the call \<open>fetch_stock_price()\<close> raises TypeError for the missing
  \<open>ticker_symbol\<close>, both paths end with that exception, and no pair is submitted.
\<close>

theorem registered_call_left_unanswered:
  "call_type (ex_call ''call_1'' ''fetch_stock_price'' ''{}'') = ''function''
   \<and> available_functions ex_notebook ''fetch_stock_price'' \<noteq> None
   \<and> poll_step ex_notebook
       (ex_service (every_poll (ex_requires_action [ex_call ''call_1'' ''fetch_stock_price'' ''{}''])))
       ''thread_1'' ''What is the price?'' (Some (ex_run ''queued'')) 0 =
     ([Sleep 5, GetRun ''thread_1'' ''run_1'', Print (''Run Status: requires_action'' @ nl),
       Print ''Function calling initiated...'', Invoke ''fetch_stock_price'' []],
      Break (Inl (Exn ''TypeError'' [''Exception'']
                    (''fetch_stock_price() missing 1 required positional argument: ''
                     @ quoted ''ticker_symbol''))))
   \<and> requires_action_cell ex_notebook
       (ex_service (every_poll (ex_requires_action [ex_call ''call_1'' ''fetch_stock_price'' ''{}''])))
       (ex_requires_action [ex_call ''call_1'' ''fetch_stock_price'' ''{}'']) =
     (Inl (Exn ''TypeError'' [''Exception'']
             (''fetch_stock_price() missing 1 required positional argument: ''
              @ quoted ''ticker_symbol'')),
      [Print ''Function Calling ...'', Invoke ''fetch_stock_price'' []])"
  by (simp add: poll_step_def requires_action_cell_def invoke_def ex_call_def ex_notebook_def
        ex_json_loads_def ex_service_def every_poll_def ex_requires_action_def ex_run_def
        fetch_stock_price_call_def)


section \<open>The price lookup\<close>

text \<open>
  C3, as the code has it. \<open>fetch_stock_price\<close> is a total function into strings: it
  returns a string whatever the provider does. When the provider returns data, a frame
  that is not empty with its \<open>Close\<close> column, the result is the latest closing price
  rounded to 3 decimal places and turned into a string, \<open>str(round(x, 3))\<close>. On an
  empty frame the result contains "No data found" and the ticker symbol. When the
  provider raises an exception that is neither a KeyError nor of a subclass of KeyError,
  the result contains the exception's class name and its text. When the exception is a
  KeyError or of a subclass, the result is "Error: Data missing for key: ... . Verify the
  ticker symbol." with the exception's text: the class name is not added. A frame with
  rows and no \<open>Close\<close> column ends in that handler too, with the key \<open>'Close'\<close>.
\<close>

theorem fetch_stock_price_cases:
  "(history t = Inr df \<and> \<not> frame_empty df \<and> map_of df ''Close'' = Some col \<and> col \<noteq> [] \<longrightarrow>
      fetch_stock_price history py_round py_str t = py_str (py_round (last col) 3))
   \<and> (history t = Inr df \<and> frame_empty df \<longrightarrow>
        sublist ''No data found'' (fetch_stock_price history py_round py_str t)
        \<and> sublist t (fetch_stock_price history py_round py_str t))
   \<and> (history t = Inl e \<and> \<not> is_instance e ''KeyError'' \<longrightarrow>
        sublist (exn_type e) (fetch_stock_price history py_round py_str t)
        \<and> sublist (exn_str e) (fetch_stock_price history py_round py_str t))
   \<and> (history t = Inl e \<and> is_instance e ''KeyError'' \<longrightarrow>
        fetch_stock_price history py_round py_str t =
          ''Error: Data missing for key: '' @ exn_str e @ ''. Verify the ticker symbol.''
        \<and> sublist (exn_str e) (fetch_stock_price history py_round py_str t))
   \<and> (history t = Inr df \<and> \<not> frame_empty df \<and> map_of df ''Close'' = None \<longrightarrow>
        fetch_stock_price history py_round py_str t =
          ''Error: Data missing for key: '' @ quoted ''Close'' @ ''. Verify the ticker symbol.'')"
proof (intro conjI impI)
  assume "history t = Inr df \<and> \<not> frame_empty df \<and> map_of df ''Close'' = Some col \<and> col \<noteq> []"
  then show "fetch_stock_price history py_round py_str t = py_str (py_round (last col) 3)"
    by (simp add: fetch_stock_price_def fetch_try_def latest_close_def)
next
  assume a: "history t = Inr df \<and> frame_empty df"
  then have r: "fetch_stock_price history py_round py_str t =
      ''Error: No data found for ticker symbol: '' @ t"
    by (simp add: fetch_stock_price_def fetch_try_def)
  show "sublist ''No data found'' (fetch_stock_price history py_round py_str t)"
    using sublist_mid[of "''No data found''" "''Error: ''" "'' for ticker symbol: '' @ t"]
    by (simp add: r)
  show "sublist t (fetch_stock_price history py_round py_str t)"
    using sublist_end[of t "''Error: No data found for ticker symbol: ''"] by (simp add: r)
next
  assume a: "history t = Inl e \<and> \<not> is_instance e ''KeyError''"
  then have r: "fetch_stock_price history py_round py_str t =
      ''Error: Unexpected issue occurred - '' @ exn_type e @ '': '' @ exn_str e"
    by (simp add: fetch_stock_price_def fetch_try_def)
  show "sublist (exn_type e) (fetch_stock_price history py_round py_str t)"
    using sublist_mid[of "exn_type e" "''Error: Unexpected issue occurred - ''" "'': '' @ exn_str e"]
    by (simp add: r)
  show "sublist (exn_str e) (fetch_stock_price history py_round py_str t)"
    using sublist_end[of "exn_str e" "''Error: Unexpected issue occurred - '' @ exn_type e @ '': ''"]
    by (simp add: r)
next
  assume a: "history t = Inl e \<and> is_instance e ''KeyError''"
  then show r: "fetch_stock_price history py_round py_str t =
      ''Error: Data missing for key: '' @ exn_str e @ ''. Verify the ticker symbol.''"
    by (simp add: fetch_stock_price_def fetch_try_def)
  show "sublist (exn_str e) (fetch_stock_price history py_round py_str t)"
    using sublist_mid[of "exn_str e" "''Error: Data missing for key: ''" "''. Verify the ticker symbol.''"]
    by (simp add: r)
next
  assume "history t = Inr df \<and> \<not> frame_empty df \<and> map_of df ''Close'' = None"
  then show "fetch_stock_price history py_round py_str t =
      ''Error: Data missing for key: '' @ quoted ''Close'' @ ''. Verify the ticker symbol.''"
    by (simp add: fetch_stock_price_def fetch_try_def latest_close_def is_instance_def)
qed

text \<open>
  One ticker for each case: MSFT has data, ZZZZ an empty frame, AAPL a connection
  error, DLST a KeyError, TZNF an exception of a subclass of KeyError, and NOCL a frame
  without the \<open>Close\<close> column.
\<close>

theorem fetch_stock_price_cases_witness:
  "fetch_stock_price ex_history ex_round ex_str ''MSFT'' = ''415.495''
   \<and> sublist ''No data found'' (fetch_stock_price ex_history ex_round ex_str ''ZZZZ'')
   \<and> sublist ''ZZZZ'' (fetch_stock_price ex_history ex_round ex_str ''ZZZZ'')
   \<and> sublist ''ConnectionError'' (fetch_stock_price ex_history ex_round ex_str ''AAPL'')
   \<and> sublist ''network unreachable'' (fetch_stock_price ex_history ex_round ex_str ''AAPL'')
   \<and> sublist (quoted ''regularMarketPrice'') (fetch_stock_price ex_history ex_round ex_str ''DLST'')
   \<and> fetch_stock_price ex_history ex_round ex_str ''TZNF'' =
       ''Error: Data missing for key: '' @ quoted ''No time zone found with key Amerika/New_York''
       @ ''. Verify the ticker symbol.''
   \<and> fetch_stock_price ex_history ex_round ex_str ''NOCL'' =
       ''Error: Data missing for key: '' @ quoted ''Close'' @ ''. Verify the ticker symbol.''"
proof -
  have d: "ex_history ''MSFT'' = Inr [(''Open'', [''410.1'']), (''Close'', [''415.4949951171875''])]
      \<and> \<not> frame_empty [(''Open'', [''410.1'']), (''Close'', [''415.4949951171875''])]
      \<and> map_of [(''Open'', [''410.1'']), (''Close'', [''415.4949951171875''])] ''Close''
          = Some [''415.4949951171875'']
      \<and> [''415.4949951171875''] \<noteq> []"
    by (simp add: ex_history_def frame_empty_def)
  have z: "ex_history ''ZZZZ'' = Inr [] \<and> frame_empty ([] :: string frame)"
    by (simp add: ex_history_def frame_empty_def)
  have c: "ex_history ''AAPL'' = Inl (Exn ''ConnectionError'' [''OSError'', ''Exception''] ''network unreachable'')
      \<and> \<not> is_instance (Exn ''ConnectionError'' [''OSError'', ''Exception''] ''network unreachable'') ''KeyError''"
    by (simp add: ex_history_def is_instance_def)
  have k: "ex_history ''DLST'' =
        Inl (Exn ''KeyError'' [''LookupError'', ''Exception''] (quoted ''regularMarketPrice''))
      \<and> is_instance (Exn ''KeyError'' [''LookupError'', ''Exception''] (quoted ''regularMarketPrice''))
           ''KeyError''"
    by (simp add: ex_history_def is_instance_def)
  have s: "ex_history ''TZNF'' =
        Inl (Exn ''ZoneInfoNotFoundError'' [''KeyError'', ''LookupError'', ''Exception'']
               (quoted ''No time zone found with key Amerika/New_York''))
      \<and> is_instance (Exn ''ZoneInfoNotFoundError'' [''KeyError'', ''LookupError'', ''Exception'']
               (quoted ''No time zone found with key Amerika/New_York'')) ''KeyError''"
    by (simp add: ex_history_def is_instance_def)
  have n: "ex_history ''NOCL'' = Inr [(''Open'', [''12.5''])]
      \<and> \<not> frame_empty [(''Open'', [''12.5''])]
      \<and> map_of [(''Open'', [''12.5''])] ''Close'' = None"
    by (simp add: ex_history_def frame_empty_def)
  have "fetch_stock_price ex_history ex_round ex_str ''MSFT'' =
      ex_str (ex_round (last [''415.4949951171875'']) 3)"
    using fetch_stock_price_cases[of ex_history "''MSFT''" _ "[''415.4949951171875'']" ex_round ex_str] d
    by blast
  moreover have "sublist ''No data found'' (fetch_stock_price ex_history ex_round ex_str ''ZZZZ'')
      \<and> sublist ''ZZZZ'' (fetch_stock_price ex_history ex_round ex_str ''ZZZZ'')"
    using fetch_stock_price_cases[of ex_history "''ZZZZ''" "[]" _ ex_round ex_str] z by blast
  moreover have "sublist ''ConnectionError'' (fetch_stock_price ex_history ex_round ex_str ''AAPL'')
      \<and> sublist ''network unreachable'' (fetch_stock_price ex_history ex_round ex_str ''AAPL'')"
    using fetch_stock_price_cases[of ex_history "''AAPL''" _ _ ex_round ex_str
            "Exn ''ConnectionError'' [''OSError'', ''Exception''] ''network unreachable''"] c
    by (metis exn.sel)
  moreover have "sublist (quoted ''regularMarketPrice'') (fetch_stock_price ex_history ex_round ex_str ''DLST'')"
    using fetch_stock_price_cases[of ex_history "''DLST''" _ _ ex_round ex_str
            "Exn ''KeyError'' [''LookupError'', ''Exception''] (quoted ''regularMarketPrice'')"] k
    by (metis exn.sel)
  moreover have "fetch_stock_price ex_history ex_round ex_str ''TZNF'' =
       ''Error: Data missing for key: '' @ quoted ''No time zone found with key Amerika/New_York''
       @ ''. Verify the ticker symbol.''"
    using fetch_stock_price_cases[of ex_history "''TZNF''" _ _ ex_round ex_str
            "Exn ''ZoneInfoNotFoundError'' [''KeyError'', ''LookupError'', ''Exception'']
               (quoted ''No time zone found with key Amerika/New_York'')"] s
    by (metis exn.sel)
  moreover have "fetch_stock_price ex_history ex_round ex_str ''NOCL'' =
       ''Error: Data missing for key: '' @ quoted ''Close'' @ ''. Verify the ticker symbol.''"
    using fetch_stock_price_cases[of ex_history "''NOCL''" "[(''Open'', [''12.5''])]" _ ex_round ex_str] n
    by blast
  ultimately show ?thesis by (simp add: ex_round_def ex_str_def)
qed

text \<open>
  C3 as written fails for KeyError: the claim promises the exception's class name in the
  result for every exception the provider raises. The sample provider raises
  \<open>KeyError('regularMarketPrice')\<close> for DLST, and the result does not contain the
  word KeyError.
\<close>

theorem key_error_hides_category:
  "fetch_stock_price ex_history ex_round ex_str ''DLST'' =
     ''Error: Data missing for key: '' @ quoted ''regularMarketPrice'' @ ''. Verify the ticker symbol.''
   \<and> \<not> sublist ''KeyError'' (fetch_stock_price ex_history ex_round ex_str ''DLST'')"
  by (simp add: fetch_stock_price_def fetch_try_def ex_history_def quoted_def is_instance_def
        sublist_Cons_right)


section \<open>The end of the loop\<close>




text \<open>
  C5, as the code has it. Let \<open>process_message\<close> be called on the notebook's global
  thread, and let the most recent message of that thread begin with a text part. In the
  iteration whose poll finds the run \<open>failed\<close>, the driver lists the thread's messages
  in the default order, most recent first, prints "Failed User: ... Agent: ..." with the
  text of that part, and the loop ends there, for any fuel left. \<open>process_message\<close>
  then returns \<open>None\<close>; the failure text is printed, not returned.
\<close>

theorem failed_run_prints_last_message:
  assumes "run_status (get_run_result svc k) = ''failed''"
      and "thread_id = global_thread_id nb"
      and "thread_messages svc thread_id = older @ [m]"
      and "msg_content m = TextPart answer # parts"
  shows "poll_loop (Suc fuel) nb svc thread_id prompt (Some old) k =
           Some (Inr (),
             [Sleep 5, GetRun thread_id (run_id old), Print (''Run Status: failed'' @ nl),
              ListMessages thread_id None,
              Print (''Failed User:'' @ nl @ prompt @ nl @ ''Agent:'' @ nl @ answer @ nl)])
       \<and> list_messages svc thread_id None = m # rev older"
  using assms poll_step_failed[of svc k nb older m answer parts thread_id prompt old]
  by (simp add: list_messages_def)

theorem failed_run_prints_last_message_witness:
  "poll_loop 1 ex_notebook (ex_service (every_poll (ex_run ''failed''))) ''thread_1''
     ''What is the price?'' (Some (ex_run ''queued'')) 0 =
     Some (Inr (),
       [Sleep 5, GetRun ''thread_1'' ''run_1'', Print (''Run Status: failed'' @ nl),
        ListMessages ''thread_1'' None,
        Print (''Failed User:'' @ nl @ ''What is the price?'' @ nl @ ''Agent:'' @ nl
               @ ''It closed at 415.495.'' @ nl)])"
proof -
  have h1: "run_status (get_run_result (ex_service (every_poll (ex_run ''failed''))) 0) = ''failed''"
    by (simp add: ex_service_def every_poll_def ex_run_def)
  have h2: "''thread_1'' = global_thread_id ex_notebook"
    by (simp add: ex_notebook_def)
  have h3: "thread_messages (ex_service (every_poll (ex_run ''failed''))) ''thread_1'' =
      [\<lparr>msg_role = ''user'', msg_content = [TextPart ''What is the price?'']\<rparr>]
      @ [\<lparr>msg_role = ''assistant'', msg_content = [TextPart ''It closed at 415.495.'']\<rparr>]"
    by (simp add: ex_service_def every_poll_def ex_messages_def)
  have h4: "msg_content \<lparr>msg_role = ''assistant'', msg_content = [TextPart ''It closed at 415.495.'']\<rparr>
      = TextPart ''It closed at 415.495.'' # []"
    by simp
  show ?thesis
    using failed_run_prints_last_message[OF h1 h2 h3 h4, of 0 "''What is the price?''" "ex_run ''queued''"]
    by (simp add: ex_run_def del: poll_loop.simps)
qed

text \<open>
  C5 as written fails: the claim has a failure outcome returned that carries the text of
  the thread's most recent message. Called on thread_2, whose most recent message is
  "The sandbox ran out of memory.", \<open>process_message\<close> returns \<open>None\<close>, and what it
  prints is the last message of thread_1, the global thread.
\<close>

theorem failed_run_reads_other_thread:
  "process_message 1 ex_notebook (ex_service (every_poll (ex_run ''failed''))) ''thread_2''
     ''Plot my holdings'' None =
     Some (Inr (),
       [CreateMessage ''thread_2'' ''user'' ''Plot my holdings'' None,
        Print ''User message added...'',
        CreateRun ''thread_2'' ''asst_1'' ''Plot my holdings'',
        Print ''Run started...'',
        Sleep 5, GetRun ''thread_2'' ''run_1'', Print (''Run Status: failed'' @ nl),
        ListMessages ''thread_1'' None,
        Print (''Failed User:'' @ nl @ ''Plot my holdings'' @ nl @ ''Agent:'' @ nl
               @ ''It closed at 415.495.'' @ nl)])
   \<and> last (thread_messages (ex_service (every_poll (ex_run ''failed''))) ''thread_2'') =
       \<lparr>msg_role = ''assistant'', msg_content = [TextPart ''The sandbox ran out of memory.'']\<rparr>"
  by (simp add: process_message_def start_run_def poll_step_def ex_service_def every_poll_def ex_run_def
        ex_notebook_def ex_messages_def list_messages_def failure_answer_def)

text \<open>
  C10, as the code has it. The \<open>failed\<close> branch lists the messages of the global
  thread \<open>thread.id\<close>, not of the parameter \<open>thread_id\<close>: in a call with a
  \<open>thread_id\<close> other than the global thread's, an iteration whose poll finds the run
  \<open>failed\<close> lists the global thread and never \<open>thread_id\<close>. When the most recent
  message of the global thread begins with a text part, the failure text printed is that
  part's and the loop ends. When the global thread has no message, or its most recent
  message has no content, the iteration raises IndexError; when that message begins with
  a part that is not text, AttributeError; in these cases nothing is reported.
\<close>

theorem failed_run_reports_global_thread:
  assumes "thread_id \<noteq> global_thread_id nb"
      and "run_status (get_run_result svc k) = ''failed''"
  shows "list_all (\<lambda>ev. ev \<noteq> ListMessages thread_id None \<and> ev \<noteq> ListMessages thread_id (Some ''asc''))
           (fst (poll_step nb svc thread_id prompt (Some old) k))
       \<and> take 4 (fst (poll_step nb svc thread_id prompt (Some old) k)) =
           [Sleep 5, GetRun thread_id (run_id old), Print (''Run Status: failed'' @ nl),
            ListMessages (global_thread_id nb) None]
       \<and> (\<forall>older m answer parts.
             thread_messages svc (global_thread_id nb) = older @ [m]
             \<and> msg_content m = TextPart answer # parts \<longrightarrow>
             poll_step nb svc thread_id prompt (Some old) k =
               ([Sleep 5, GetRun thread_id (run_id old), Print (''Run Status: failed'' @ nl),
                 ListMessages (global_thread_id nb) None,
                 Print (''Failed User:'' @ nl @ prompt @ nl @ ''Agent:'' @ nl @ answer @ nl)],
                Break (Inr ())))
       \<and> (thread_messages svc (global_thread_id nb) = [] \<longrightarrow>
             poll_step nb svc thread_id prompt (Some old) k =
               ([Sleep 5, GetRun thread_id (run_id old), Print (''Run Status: failed'' @ nl),
                 ListMessages (global_thread_id nb) None],
                Break (Inl (Exn ''IndexError'' [''LookupError'', ''Exception''] ''list index out of range''))))
       \<and> (\<forall>older m.
             thread_messages svc (global_thread_id nb) = older @ [m] \<and> msg_content m = [] \<longrightarrow>
             poll_step nb svc thread_id prompt (Some old) k =
               ([Sleep 5, GetRun thread_id (run_id old), Print (''Run Status: failed'' @ nl),
                 ListMessages (global_thread_id nb) None],
                Break (Inl (Exn ''IndexError'' [''LookupError'', ''Exception''] ''list index out of range''))))
       \<and> (\<forall>older m part parts.
             thread_messages svc (global_thread_id nb) = older @ [m]
             \<and> msg_content m = part # parts \<and> \<not> is_text part \<longrightarrow>
             poll_step nb svc thread_id prompt (Some old) k =
               ([Sleep 5, GetRun thread_id (run_id old), Print (''Run Status: failed'' @ nl),
                 ListMessages (global_thread_id nb) None],
                Break (Inl (Exn ''AttributeError'' [''Exception''] ''text''))))"
proof (intro conjI allI impI)
  show "list_all (\<lambda>ev. ev \<noteq> ListMessages thread_id None \<and> ev \<noteq> ListMessages thread_id (Some ''asc''))
           (fst (poll_step nb svc thread_id prompt (Some old) k))"
    using assms by (simp add: poll_step_def Let_def split: sum.splits)
  show "take 4 (fst (poll_step nb svc thread_id prompt (Some old) k)) =
           [Sleep 5, GetRun thread_id (run_id old), Print (''Run Status: failed'' @ nl),
            ListMessages (global_thread_id nb) None]"
    using assms by (simp add: poll_step_def Let_def split: sum.splits)
next
  fix older m answer parts
  assume "thread_messages svc (global_thread_id nb) = older @ [m]
             \<and> msg_content m = TextPart answer # parts"
  then show "poll_step nb svc thread_id prompt (Some old) k =
               ([Sleep 5, GetRun thread_id (run_id old), Print (''Run Status: failed'' @ nl),
                 ListMessages (global_thread_id nb) None,
                 Print (''Failed User:'' @ nl @ prompt @ nl @ ''Agent:'' @ nl @ answer @ nl)],
                Break (Inr ()))"
    using assms(2) poll_step_failed[of svc k nb older m answer parts thread_id prompt old] by simp
next
  assume "thread_messages svc (global_thread_id nb) = []"
  then show "poll_step nb svc thread_id prompt (Some old) k =
               ([Sleep 5, GetRun thread_id (run_id old), Print (''Run Status: failed'' @ nl),
                 ListMessages (global_thread_id nb) None],
                Break (Inl (Exn ''IndexError'' [''LookupError'', ''Exception''] ''list index out of range'')))"
    using assms(2) by (simp add: poll_step_def Let_def list_messages_def failure_answer_def)
next
  fix older m
  assume "thread_messages svc (global_thread_id nb) = older @ [m] \<and> msg_content m = []"
  then show "poll_step nb svc thread_id prompt (Some old) k =
               ([Sleep 5, GetRun thread_id (run_id old), Print (''Run Status: failed'' @ nl),
                 ListMessages (global_thread_id nb) None],
                Break (Inl (Exn ''IndexError'' [''LookupError'', ''Exception''] ''list index out of range'')))"
    using assms(2) by (simp add: poll_step_def Let_def list_messages_def failure_answer_def)
next
  fix older m part parts
  assume "thread_messages svc (global_thread_id nb) = older @ [m]
             \<and> msg_content m = part # parts \<and> \<not> is_text part"
  then show "poll_step nb svc thread_id prompt (Some old) k =
               ([Sleep 5, GetRun thread_id (run_id old), Print (''Run Status: failed'' @ nl),
                 ListMessages (global_thread_id nb) None],
                Break (Inl (Exn ''AttributeError'' [''Exception''] ''text'')))"
    using assms(2)
    by (cases part)
       (simp_all add: poll_step_def Let_def list_messages_def failure_answer_def attribute_error_def)
qed

text \<open>
  Called on thread_2 while the global thread is thread_1, the failure text is that of
  thread_1; while the global thread is thread_5, whose last message begins with the
  chart, the iteration raises.
\<close>

theorem failed_run_reports_global_thread_witness:
  "poll_step ex_notebook (ex_service (every_poll (ex_run ''failed''))) ''thread_2''
     ''Plot my holdings'' (Some (ex_run ''queued'')) 0 =
     ([Sleep 5, GetRun ''thread_2'' ''run_1'', Print (''Run Status: failed'' @ nl),
       ListMessages ''thread_1'' None,
       Print (''Failed User:'' @ nl @ ''Plot my holdings'' @ nl @ ''Agent:'' @ nl
              @ ''It closed at 415.495.'' @ nl)],
      Break (Inr ()))
   \<and> poll_step (ex_notebook\<lparr>global_thread_id := ''thread_5''\<rparr>)
       (ex_service (every_poll (ex_run ''failed''))) ''thread_2''
       ''Plot my holdings'' (Some (ex_run ''queued'')) 0 =
     ([Sleep 5, GetRun ''thread_2'' ''run_1'', Print (''Run Status: failed'' @ nl),
       ListMessages ''thread_5'' None],
      Break (Inl (Exn ''AttributeError'' [''Exception''] ''text'')))"
proof -
  let ?svc = "ex_service (every_poll (ex_run ''failed''))"
  let ?nb5 = "ex_notebook\<lparr>global_thread_id := ''thread_5''\<rparr>"
  have h1: "''thread_2'' \<noteq> global_thread_id ex_notebook"
    by (simp add: ex_notebook_def)
  have h1': "''thread_2'' \<noteq> global_thread_id ?nb5"
    by simp
  have h2: "run_status (get_run_result ?svc 0) = ''failed''"
    by (simp add: ex_service_def every_poll_def ex_run_def)
  have t1: "thread_messages ?svc (global_thread_id ex_notebook) =
      [\<lparr>msg_role = ''user'', msg_content = [TextPart ''What is the price?'']\<rparr>]
      @ [\<lparr>msg_role = ''assistant'', msg_content = [TextPart ''It closed at 415.495.'']\<rparr>]
    \<and> msg_content \<lparr>msg_role = ''assistant'', msg_content = [TextPart ''It closed at 415.495.'']\<rparr>
      = TextPart ''It closed at 415.495.'' # []"
    by (simp add: ex_service_def ex_messages_def ex_notebook_def)
  have t5: "thread_messages ?svc (global_thread_id ?nb5) =
      [\<lparr>msg_role = ''user'', msg_content = [TextPart ''Show a pie chart'']\<rparr>]
      @ [\<lparr>msg_role = ''assistant'',
          msg_content = [ImageFilePart ''file_9'', TextPart ''Here is the chart.'']\<rparr>]
    \<and> msg_content \<lparr>msg_role = ''assistant'',
          msg_content = [ImageFilePart ''file_9'', TextPart ''Here is the chart.'']\<rparr>
      = ImageFilePart ''file_9'' # [TextPart ''Here is the chart.'']
    \<and> \<not> is_text (ImageFilePart ''file_9'')"
    by (simp add: ex_service_def ex_messages_def)
  have a: "poll_step ex_notebook ?svc ''thread_2'' ''Plot my holdings'' (Some (ex_run ''queued'')) 0 =
     ([Sleep 5, GetRun ''thread_2'' (run_id (ex_run ''queued'')), Print (''Run Status: failed'' @ nl),
       ListMessages (global_thread_id ex_notebook) None,
       Print (''Failed User:'' @ nl @ ''Plot my holdings'' @ nl @ ''Agent:'' @ nl
              @ ''It closed at 415.495.'' @ nl)],
      Break (Inr ()))"
    using failed_run_reports_global_thread[OF h1 h2, of "''Plot my holdings''" "ex_run ''queued''"] t1
    by blast
  have b: "poll_step ?nb5 ?svc ''thread_2'' ''Plot my holdings'' (Some (ex_run ''queued'')) 0 =
     ([Sleep 5, GetRun ''thread_2'' (run_id (ex_run ''queued'')), Print (''Run Status: failed'' @ nl),
       ListMessages (global_thread_id ?nb5) None],
      Break (Inl (Exn ''AttributeError'' [''Exception''] ''text'')))"
    using failed_run_reports_global_thread[OF h1' h2, of "''Plot my holdings''" "ex_run ''queued''"] t5
    by blast
  show ?thesis
    using a b by (simp add: ex_notebook_def ex_run_def)
qed

text \<open>
  C10 as written fails: it has every failed run of a call on another thread report the
  last message of the global thread. When the global thread is thread_5, whose most
  recent message begins with an image, \<open>process_message\<close> on thread_2 raises
  AttributeError after listing thread_5 and prints no failure text; when the global
  thread has no message it raises IndexError.
\<close>

theorem failed_run_with_chart_reports_nothing:
  "process_message 1 (ex_notebook\<lparr>global_thread_id := ''thread_5''\<rparr>)
     (ex_service (every_poll (ex_run ''failed''))) ''thread_2'' ''Plot my holdings'' None =
     Some (Inl (Exn ''AttributeError'' [''Exception''] ''text''),
       [CreateMessage ''thread_2'' ''user'' ''Plot my holdings'' None,
        Print ''User message added...'',
        CreateRun ''thread_2'' ''asst_1'' ''Plot my holdings'',
        Print ''Run started...'',
        Sleep 5, GetRun ''thread_2'' ''run_1'', Print (''Run Status: failed'' @ nl),
        ListMessages ''thread_5'' None])
   \<and> process_message 1 (ex_notebook\<lparr>global_thread_id := ''thread_0''\<rparr>)
     (ex_service (every_poll (ex_run ''failed''))) ''thread_2'' ''Plot my holdings'' None =
     Some (Inl (Exn ''IndexError'' [''LookupError'', ''Exception''] ''list index out of range''),
       [CreateMessage ''thread_2'' ''user'' ''Plot my holdings'' None,
        Print ''User message added...'',
        CreateRun ''thread_2'' ''asst_1'' ''Plot my holdings'',
        Print ''Run started...'',
        Sleep 5, GetRun ''thread_2'' ''run_1'', Print (''Run Status: failed'' @ nl),
        ListMessages ''thread_0'' None])"
  by (simp add: process_message_def start_run_def poll_step_def ex_service_def every_poll_def
        ex_run_def ex_notebook_def ex_messages_def list_messages_def failure_answer_def
        attribute_error_def)


section \<open>The start of the run\<close>

text \<open>
  C6. When \<open>create_message\<close> raises, the handler prints "Error starting run: ..." and
  falls through into the loop: the driver sleeps, then raises UnboundLocalError on
  reading \<open>run.id\<close>, since \<open>run\<close> was never assigned. Neither call is retried and no
  \<open>get_run\<close> is made, but the loop is entered, and the exception that ends the
  interaction is not the service's.
\<close>

theorem rejected_prompt_still_enters_loop:
  "process_message 1 ex_notebook
     ((ex_service (every_poll (ex_run ''completed'')))
        \<lparr>create_message_result := Some (Exn ''HttpResponseError'' [''AzureError'', ''Exception''] ''(404) No thread found'')\<rparr>)
     ''thread_9'' ''What is the price?'' None =
     Some (Inl (Exn ''UnboundLocalError'' [''NameError'', ''Exception'']
                  (''cannot access local variable '' @ quoted ''run''
                   @ '' where it is not associated with a value'')),
       [CreateMessage ''thread_9'' ''user'' ''What is the price?'' None,
        Print ''Error starting run: (404) No thread found'',
        Sleep 5])"
  by (simp add: process_message_def start_run_def poll_step_def ex_service_def every_poll_def)


section \<open>The content of the messages\<close>

text \<open>
  C7. On thread_3 the assistant's message has two text parts. The loop over the parts
  assigns each value to \<open>content\<close> and the line is printed after the loop, so only the
  second part is printed: the first, "MSFT closed at 415.495.", appears nowhere.
\<close>

theorem earlier_text_part_is_dropped:
  "process_message 1 ex_notebook (ex_service (every_poll (ex_run ''completed''))) ''thread_3''
     ''What is the price?'' None =
     Some (Inr (),
       [CreateMessage ''thread_3'' ''user'' ''What is the price?'' None,
        Print ''User message added...'',
        CreateRun ''thread_3'' ''asst_1'' ''What is the price?'',
        Print ''Run started...'',
        Sleep 5, GetRun ''thread_3'' ''run_1'', Print (''Run Status: completed'' @ nl),
        ListMessages ''thread_3'' (Some ''asc''),
        Print ''User: What is the price?'',
        Print ''Assistant: Your position is worth 4154.95.''])"
  by (simp add: process_message_def start_run_def poll_step_def ex_service_def every_poll_def ex_run_def
        ex_notebook_def ex_messages_def list_messages_def capitalize_def upper_char_def
        lower_char_def str_opt_def)


section \<open>The polling loop\<close>

text \<open>
  C8. An iteration whose poll finds the run \<open>queued\<close> or \<open>in_progress\<close> sleeps,
  fetches the run, sleeps again, and the loop goes on with the run just fetched; the one
  other event is the line that logs the status on the console. None of these events
  creates a message or a run, submits tool outputs or calls a registered function.
\<close>

theorem idle_poll_only_observes:
  assumes "run_status (get_run_result svc k) = ''queued''
         \<or> run_status (get_run_result svc k) = ''in_progress''"
  shows "poll_step nb svc thread_id prompt (Some old) k =
           ([Sleep 5, GetRun thread_id (run_id old),
             Print (''Run Status: '' @ run_status (get_run_result svc k) @ nl), Sleep 5],
            Continue (get_run_result svc k))
       \<and> list_all (\<lambda>ev. \<not> modifies_remote ev \<and> \<not> is_invoke ev)
            (fst (poll_step nb svc thread_id prompt (Some old) k))"
  using assms by (auto simp: poll_step_def Let_def)

theorem idle_poll_only_observes_witness:
  "poll_step ex_notebook (ex_service (every_poll (ex_run ''in_progress''))) ''thread_1''
     ''What is the price?'' (Some (ex_run ''queued'')) 0 =
     ([Sleep 5, GetRun ''thread_1'' ''run_1'', Print (''Run Status: in_progress'' @ nl), Sleep 5],
      Continue (ex_run ''in_progress''))"
proof -
  have h: "run_status (get_run_result (ex_service (every_poll (ex_run ''in_progress''))) 0) = ''queued''
         \<or> run_status (get_run_result (ex_service (every_poll (ex_run ''in_progress''))) 0) = ''in_progress''"
    by (simp add: ex_service_def every_poll_def ex_run_def)
  show ?thesis
    using idle_poll_only_observes[OF h, of ex_notebook "''thread_1''" "''What is the price?''"
                                    "ex_run ''queued''"]
    by (simp add: ex_service_def every_poll_def ex_run_def)
qed

text \<open>
  C9. The loop is to end only in an iteration that finds the run \<open>completed\<close> or
  \<open>failed\<close>, or that raises while it handles \<open>requires_action\<close>. When
  \<open>create_run\<close> raises, the handler prints and falls through, and the loop ends in its
  first iteration with UnboundLocalError: no poll was made, so no status was found, and
  no call was dispatched. The service of the sample would have answered every poll with
  \<open>in_progress\<close>.
\<close>

theorem unstarted_run_leaves_loop_unobserved:
  "process_message 1 ex_notebook
     ((ex_service (every_poll (ex_run ''in_progress'')))
        \<lparr>create_run_result :=
           Inl (Exn ''HttpResponseError'' [''AzureError'', ''Exception''] ''(404) No assistant found'')\<rparr>)
     ''thread_1'' ''What is the price?'' None =
     Some (Inl (Exn ''UnboundLocalError'' [''NameError'', ''Exception'']
                  (''cannot access local variable '' @ quoted ''run''
                   @ '' where it is not associated with a value'')),
       [CreateMessage ''thread_1'' ''user'' ''What is the price?'' None,
        Print ''User message added...'',
        CreateRun ''thread_1'' ''asst_1'' ''What is the price?'',
        Print ''Error starting run: (404) No assistant found'',
        Sleep 5])"
  by (simp add: process_message_def start_run_def poll_step_def ex_service_def ex_notebook_def)

end
